theory Spec2Isabelle
  imports Complex_Main
begin

section \<open>Data model\<close>

text \<open>
  A \<open>Matrix\<close> of \<open>lib/matrix.js\<close> is an array of rows, each row a \<open>Vector\<close> (an array
  of numbers). Numbers are modelled as exact reals: rounding, overflow and NaN of IEEE
  doubles are outside the model, as in the description of the data model ("an ordered
  sequence of n real numbers").
\<close>

type_synonym vec = "real list"
type_synonym matrix = "vec list"

text \<open>\<^verbatim>\<open>get m() { return this.length; }\<close>\<close>

definition m :: "matrix \<Rightarrow> nat" where
  "m A = length A"

text \<open>\<^verbatim>\<open>get n() { return this.length === 0 ? 0 : this[0].length; }\<close>\<close>

definition n :: "matrix \<Rightarrow> nat" where
  "n A = (case A of [] \<Rightarrow> 0 | row # _ \<Rightarrow> length row)"


section \<open>Leading entries and the echelon test\<close>

text \<open>
  The inner loop of \<open>leadingEntries\<close>: the first \<open>j < n\<close> with \<open>Math.abs(row[j]) > \<epsilon>\<close>.
  Reading past the end of a row gives \<open>undefined\<close>, whose absolute value is NaN and
  compares false, so such indices are never chosen.
\<close>

definition leadCol :: "real \<Rightarrow> nat \<Rightarrow> vec \<Rightarrow> nat option" where
  "leadCol \<epsilon> k row =
     (case filter (\<lambda>j. \<epsilon> < \<bar>row ! j\<bar>) [0..<min k (length row)] of
        [] \<Rightarrow> None
      | j # _ \<Rightarrow> Some j)"

definition leadingEntries :: "real \<Rightarrow> matrix \<Rightarrow> (nat \<times> nat) list" where
  "leadingEntries \<epsilon> A =
     List.map_filter (\<lambda>i. map_option (Pair i) (leadCol \<epsilon> (n A) (A ! i))) [0..<length A]"

text \<open>
  The loop of \<open>isEchelon\<close>, with the running pair \<open>(i0, j0)\<close> that starts at \<open>(-1, -1)\<close>:
  \<^verbatim>\<open>if(i !== i0 + 1 || j <= j0) return false; i0 = i; j0 = j;\<close>
\<close>

fun echelon_loop :: "int \<Rightarrow> int \<Rightarrow> (nat \<times> nat) list \<Rightarrow> bool" where
  "echelon_loop i0 j0 [] = True"
| "echelon_loop i0 j0 ((i, j) # es) =
     (if int i \<noteq> i0 + 1 \<or> int j \<le> j0 then False else echelon_loop (int i) (int j) es)"

definition isEchelon :: "real \<Rightarrow> matrix \<Rightarrow> bool" where
  "isEchelon \<epsilon> A = echelon_loop (- 1) (- 1) (leadingEntries \<epsilon> A)"

section \<open>The Vector collaborator\<close>

text \<open>
  Modelled from the spec: \<open>Vector.zero(n)\<close>, the zero vector of length \<open>n\<close>
  (\<open>lib/vector.js\<close> is not among the sources).
\<close>

definition vzero :: "nat \<Rightarrow> vec" where
  "vzero k = replicate k 0"

text \<open>
  Modelled from the spec: \<open>Vector.e(i, n, scale)\<close>, the unit vector construction: \<open>scale\<close>
  at index \<open>i\<close> and zero elsewhere (\<open>lib/vector.js\<close> is not among the sources).
\<close>

definition ve :: "nat \<Rightarrow> nat \<Rightarrow> real \<Rightarrow> vec" where
  "ve i k c = (replicate k 0)[i := c]"

text \<open>
  Modelled from the spec: \<open>add(other, factor, start)\<close> of Vector adds \<open>factor\<close> times
  \<open>other\<close> to the entries \<open>start...\<close> of the vector, as \<open>rowReplace\<close> documents its
  \<open>start\<close> parameter ("only add the entries start...this.n").
\<close>

definition vadd :: "vec \<Rightarrow> vec \<Rightarrow> real \<Rightarrow> nat \<Rightarrow> vec" where
  "vadd v w c start = map (\<lambda>k. if start \<le> k then v ! k + c * w ! k else v ! k) [0..<length v]"

text \<open>
  Modelled from the spec: \<open>scale(c, start)\<close> of Vector multiplies the entries \<open>start...\<close>
  by \<open>c\<close>, as \<open>rowScale\<close> documents its \<open>start\<close> parameter.
\<close>

definition vscale :: "vec \<Rightarrow> real \<Rightarrow> nat \<Rightarrow> vec" where
  "vscale v c start = map (\<lambda>k. if start \<le> k then v ! k * c else v ! k) [0..<length v]"

text \<open>Modelled from the spec: \<open>dot(other)\<close> of Vector, the sum of the products of the entries.\<close>

definition dot :: "vec \<Rightarrow> vec \<Rightarrow> real" where
  "dot v w = (\<Sum>k<length v. v ! k * w ! k)"

text \<open>
  Modelled from the spec: \<open>sizesq\<close> and \<open>size\<close> of Vector, the squared length and the length.
\<close>

definition sizesq :: "vec \<Rightarrow> real" where
  "sizesq v = dot v v"

definition vsize :: "vec \<Rightarrow> real" where
  "vsize v = sqrt (sizesq v)"

section \<open>Constructors and arithmetic of matrices\<close>

datatype error =
    NonSquare
  | Incompatible
  | Singular
  | NotEigenvalue
  | RowOutOfRange

text \<open>\<^verbatim>\<open>static identity(n, \<lambda>=1) { return Matrix.from(range(n), i => Vector.e(i, n, \<lambda>)); }\<close>\<close>

definition identity :: "nat \<Rightarrow> real \<Rightarrow> matrix" where
  "identity k c = map (\<lambda>i. ve i k c) [0..<k]"

definition zero :: "nat \<Rightarrow> nat \<Rightarrow> matrix" where
  "zero k l = map (\<lambda>i. vzero l) [0..<k]"


text \<open>\<open>col(j)\<close> and the getter \<open>transpose\<close> (its value; the cache is modelled below).\<close>

definition col :: "matrix \<Rightarrow> nat \<Rightarrow> vec" where
  "col A j = map (\<lambda>row. row ! j) A"

definition transpose_of :: "matrix \<Rightarrow> matrix" where
  "transpose_of A = map (col A) [0..<n A]"

definition isSquare :: "matrix \<Rightarrow> bool" where
  "isSquare A = (m A = n A)"

text \<open>
  \<open>mult(other)\<close>: entry \<open>(i, c)\<close> is \<open>row.reduce((a, v, j) => a + v * other[j][c], 0)\<close>; an
  error when \<open>other.m !== this.n\<close>.
\<close>

definition mult_raw :: "matrix \<Rightarrow> matrix \<Rightarrow> matrix" where
  "mult_raw A B = map (\<lambda>row. map (\<lambda>c. \<Sum>j<length row. row ! j * B ! j ! c) [0..<n B]) A"

definition mult :: "matrix \<Rightarrow> matrix \<Rightarrow> error + matrix" where
  "mult A B = (if m B \<noteq> n A then Inl Incompatible else Inr (mult_raw A B))"

text \<open>\<open>apply(v)\<close>: the vector of the dot products of the rows with \<open>v\<close>.\<close>

definition apply_vec :: "matrix \<Rightarrow> vec \<Rightarrow> error + vec" where
  "apply_vec A v = (if length v \<noteq> n A then Inl Incompatible else Inr (map (\<lambda>row. dot row v) A))"

section \<open>Elementary row operations\<close>

text \<open>On the entries; the methods on a matrix with its cache come below.\<close>

definition rowScale :: "matrix \<Rightarrow> nat \<Rightarrow> real \<Rightarrow> nat \<Rightarrow> matrix" where
  "rowScale A i c start = A[i := vscale (A ! i) c start]"

definition rowReplace :: "matrix \<Rightarrow> nat \<Rightarrow> nat \<Rightarrow> real \<Rightarrow> nat \<Rightarrow> matrix" where
  "rowReplace A i1 i2 c start = A[i1 := vadd (A ! i1) (A ! i2) c start]"

text \<open>\<^verbatim>\<open>[this[i1], this[i2]] = [this[i2], this[i1]]\<close>\<close>

definition rowSwap :: "matrix \<Rightarrow> nat \<Rightarrow> nat \<Rightarrow> matrix" where
  "rowSwap A i1 i2 = (A[i1 := A ! i2])[i2 := A ! i1]"

section \<open>Gaussian elimination: \<open>PLU\<close>\<close>

record PLUData =
  plu_P :: "nat list"
  plu_L :: matrix
  plu_U :: matrix
  plu_E :: matrix
  plu_pivots :: "(nat \<times> nat) list"
  plu_signP :: int

text \<open>
  The search for the maximal pivot: starts at \<open>U[curRow][curCol]\<close> and takes a later row
  only when its entry is strictly larger in absolute value.
\<close>

definition find_pivot :: "matrix \<Rightarrow> nat \<Rightarrow> nat \<Rightarrow> real \<times> nat" where
  "find_pivot Um curRow curCol =
     fold (\<lambda>i (pivot, row). if \<bar>Um ! i ! curCol\<bar> > \<bar>pivot\<bar> then (Um ! i ! curCol, i) else (pivot, row))
       [curRow + 1..<length Um] (Um ! curRow ! curCol, curRow)"

text \<open>
  The row swap of \<open>PLU\<close>: \<open>P\<close>, \<open>U\<close> and \<open>E\<close> swap the two rows, \<open>L\<close> swaps the entries
  \<open>j < curRow\<close> of the two rows, the sign flips.
\<close>

definition swap_rows :: "nat \<Rightarrow> nat \<Rightarrow> PLUData \<Rightarrow> PLUData" where
  "swap_rows row curRow d =
     d\<lparr>plu_P := ((plu_P d)[row := plu_P d ! curRow])[curRow := plu_P d ! row],
       plu_signP := plu_signP d * (- 1),
       plu_U := rowSwap (plu_U d) row curRow,
       plu_E := rowSwap (plu_E d) row curRow,
       plu_L := ((plu_L d)[row := take curRow (plu_L d ! curRow) @ drop curRow (plu_L d ! row)])
                  [curRow := take curRow (plu_L d ! row) @ drop curRow (plu_L d ! curRow)]\<rparr>"

text \<open>
  One round of the elimination loop, for the row \<open>i\<close> below the pivot:
  \<^verbatim>\<open>let l = U[i][curCol] / pivot; L[i][curRow] = l; U[i][curCol] = 0;
  U.rowReplace(i, curRow, -l, curCol+1); E.rowReplace(i, curRow, -l);\<close>
\<close>

definition eliminate_row :: "nat \<Rightarrow> nat \<Rightarrow> real \<Rightarrow> nat \<Rightarrow> PLUData \<Rightarrow> PLUData" where
  "eliminate_row curRow curCol pivot i d =
     (let l = plu_U d ! i ! curCol / pivot in
      d\<lparr>plu_L := (plu_L d)[i := (plu_L d ! i)[curRow := l]],
        plu_U := rowReplace ((plu_U d)[i := (plu_U d ! i)[curCol := 0]]) i curRow (- l) (curCol + 1),
        plu_E := rowReplace (plu_E d) i curRow (- l) 0\<rparr>)"

text \<open>The other branch: \<^verbatim>\<open>for(let i = curRow; i < m; ++i) U[i][curCol] = 0;\<close>\<close>

definition clear_column :: "nat \<Rightarrow> nat \<Rightarrow> matrix \<Rightarrow> matrix" where
  "clear_column curRow curCol Um =
     fold (\<lambda>i M. M[i := (M ! i)[curCol := 0]]) [curRow..<length Um] Um"

function PLU_loop :: "real \<Rightarrow> nat \<Rightarrow> nat \<Rightarrow> nat \<Rightarrow> nat \<Rightarrow> PLUData \<Rightarrow> PLUData" where
  "PLU_loop \<epsilon> mm nn curRow curCol d =
     (if curRow < mm \<and> curCol < nn then
        (case find_pivot (plu_U d) curRow curCol of (pivot, row) \<Rightarrow>
           if \<bar>pivot\<bar> > \<epsilon> then
             let d1 = (if row \<noteq> curRow then swap_rows row curRow d else d);
                 d2 = fold (eliminate_row curRow curCol pivot) [curRow + 1..<mm] d1;
                 d3 = d2\<lparr>plu_pivots := plu_pivots d2 @ [(curRow, curCol)]\<rparr>
             in PLU_loop \<epsilon> mm nn (curRow + 1) (curCol + 1) d3
           else
             PLU_loop \<epsilon> mm nn curRow (curCol + 1)
               (d\<lparr>plu_U := clear_column curRow curCol (plu_U d)\<rparr>))
      else d)"
  by pat_completeness auto
termination
  by (relation "measure (\<lambda>(\<epsilon>, mm, nn, curRow, curCol, d). nn - curCol)") auto

text \<open>The value that \<open>PLU(\<epsilon>)\<close> computes when nothing is cached.\<close>

definition PLU_compute :: "real \<Rightarrow> matrix \<Rightarrow> PLUData" where
  "PLU_compute \<epsilon> A =
     PLU_loop \<epsilon> (m A) (n A) 0 0
       \<lparr>plu_P = [0..<m A], plu_L = identity (m A) 1, plu_U = A, plu_E = identity (m A) 1,
        plu_pivots = [], plu_signP = 1\<rparr>"

section \<open>Reduced row echelon form\<close>

text \<open>
  The inner loop of \<open>rref\<close> for the row \<open>i\<close> above the pivot \<open>(row, col)\<close>, on the pair
  \<open>(rref, rowOps)\<close>:
  \<^verbatim>\<open>rref.rowReplace(i, row, -rref[i][col]/pivot, col+1);
  rowOps.rowReplace(i, row, -rref[i][col]/pivot); rref[i][col] = 0;\<close>
\<close>

definition rref_clear_above :: "nat \<Rightarrow> nat \<Rightarrow> real \<Rightarrow> nat \<Rightarrow> matrix \<times> matrix \<Rightarrow> matrix \<times> matrix" where
  "rref_clear_above row c pivot i = (\<lambda>(R, Ops).
     let R1 = rowReplace R i row (- (R ! i ! c) / pivot) (c + 1);
         Ops1 = rowReplace Ops i row (- (R1 ! i ! c) / pivot) 0
     in (R1[i := (R1 ! i)[c := 0]], Ops1))"

definition rref_pivot :: "nat \<times> nat \<Rightarrow> matrix \<times> matrix \<Rightarrow> matrix \<times> matrix" where
  "rref_pivot = (\<lambda>(row, c) (R, Ops).
     let pivot = R ! row ! c in
     (case fold (rref_clear_above row c pivot) [0..<row] (R, Ops) of (R1, Ops1) \<Rightarrow>
        let R2 = rowScale R1 row (1 / pivot) (c + 1);
            Ops2 = rowScale Ops1 row (1 / pivot) 0
        in (R2[row := (R2 ! row)[c := 1]], Ops2)))"

text \<open>The loop runs from the last pivot to the first.\<close>

definition rref_pair :: "PLUData \<Rightarrow> matrix \<times> matrix" where
  "rref_pair d = fold rref_pivot (rev (plu_pivots d)) (plu_U d, plu_E d)"

definition rref_compute :: "real \<Rightarrow> matrix \<Rightarrow> matrix" where
  "rref_compute \<epsilon> A = fst (rref_pair (PLU_compute \<epsilon> A))"

definition rowOps_compute :: "real \<Rightarrow> matrix \<Rightarrow> matrix" where
  "rowOps_compute \<epsilon> A = snd (rref_pair (PLU_compute \<epsilon> A))"

section \<open>QR decomposition\<close>

record QRData =
  qr_Q :: matrix
  qr_R :: matrix
  qr_LD :: "nat list"

text \<open>
  The inner loop of \<open>QR\<close> for the earlier column \<open>jj\<close>, on the pair \<open>(u, R)\<close>:
  \<^verbatim>\<open>let factor = ui[jj].dot(u); u.sub(ui[jj].clone().scale(factor)); R[jj][j] = factor;\<close>
\<close>

definition qr_project :: "vec list \<Rightarrow> nat \<Rightarrow> nat \<Rightarrow> vec \<times> matrix \<Rightarrow> vec \<times> matrix" where
  "qr_project ui j jj = (\<lambda>(u, R).
     let factor = dot (ui ! jj) u in
     (vadd u (vscale (ui ! jj) factor 0) (- 1) 0, R[jj := (R ! jj)[j := factor]]))"

definition qr_column :: "real \<Rightarrow> matrix \<Rightarrow> nat \<Rightarrow> vec list \<times> matrix \<times> nat list \<Rightarrow> vec list \<times> matrix \<times> nat list" where
  "qr_column \<epsilon> A j = (\<lambda>(ui, R, LD).
     (case fold (qr_project ui j) [0..<j] (col A j, R) of (u, R1) \<Rightarrow>
        let l = vsize u in
        if l > \<epsilon> then (ui @ [vscale u (1 / l) 0], R1[j := (R1 ! j)[j := l]], LD)
        else (ui @ [vzero (m A)], R1[j := (R1 ! j)[j := 0]], LD @ [j])))"

definition QR_compute :: "real \<Rightarrow> matrix \<Rightarrow> QRData" where
  "QR_compute \<epsilon> A =
     (case fold (qr_column \<epsilon> A) [0..<n A] ([], zero (n A) (n A), []) of (ui, R, LD) \<Rightarrow>
        \<lparr>qr_Q = transpose_of ui, qr_R = R, qr_LD = LD\<rparr>)"

section \<open>The matrix object and its cache\<close>

text \<open>
  A matrix object is its rows together with the private \<open>__cache\<close>. A missing \<open>__cache\<close> and
  an empty one behave alike (the getter \<open>_cache\<close> creates it on first use), so both are the
  empty cache here. A field that is \<open>None\<close> is an absent (undefined) field.
\<close>

record cache =
  c_transpose :: "matrix option"
  c_PLU :: "PLUData option"
  c_rank :: "nat option"
  c_rref :: "matrix option"
  c_rowOps :: "matrix option"
  c_QR :: "QRData option"

record Matrix =
  entries :: matrix
  cache :: cache

definition empty_cache :: cache where
  "empty_cache = \<lparr>c_transpose = None, c_PLU = None, c_rank = None, c_rref = None,
     c_rowOps = None, c_QR = None\<rparr>"

text \<open>A matrix as \<open>Matrix.create\<close> returns it: nothing cached.\<close>

definition new_Matrix :: "matrix \<Rightarrow> Matrix" where
  "new_Matrix A = \<lparr>entries = A, cache = empty_cache\<rparr>"

text \<open>\<^verbatim>\<open>invalidate() { if(this.__cache) delete this.__cache; }\<close>\<close>

definition invalidate :: "Matrix \<Rightarrow> Matrix" where
  "invalidate M = M\<lparr>cache := empty_cache\<rparr>"

definition default_eps :: real where
  "default_eps = 1 / 10 ^ 10"

text \<open>The cached accessors: each returns its value and the object with the cache filled.\<close>

definition transpose_m :: "Matrix \<Rightarrow> matrix \<times> Matrix" where
  "transpose_m M =
     (case c_transpose (cache M) of
        Some T \<Rightarrow> (T, M)
      | None \<Rightarrow> (let T = transpose_of (entries M)
                 in (T, M\<lparr>cache := (cache M)\<lparr>c_transpose := Some T\<rparr>\<rparr>)))"

definition PLU :: "real \<Rightarrow> Matrix \<Rightarrow> PLUData \<times> Matrix" where
  "PLU \<epsilon> M =
     (case c_PLU (cache M) of
        Some d \<Rightarrow> (d, M)
      | None \<Rightarrow> (let d = PLU_compute \<epsilon> (entries M)
                 in (d, M\<lparr>cache := (cache M)\<lparr>c_PLU := Some d\<rparr>\<rparr>)))"

text \<open>\<^verbatim>\<open>pivots(\<epsilon>) { return this.PLU(\<epsilon>).pivots; }\<close>\<close>

definition pivots :: "real \<Rightarrow> Matrix \<Rightarrow> (nat \<times> nat) list \<times> Matrix" where
  "pivots \<epsilon> M = (case PLU \<epsilon> M of (d, M1) \<Rightarrow> (plu_pivots d, M1))"

text \<open>
  \<^verbatim>\<open>if(this._cache.rank === undefined) this._cache.rank = this.pivots(\<epsilon>).length;
  return this._cache.rank;\<close>
\<close>

definition rank :: "real \<Rightarrow> Matrix \<Rightarrow> nat \<times> Matrix" where
  "rank \<epsilon> M =
     (case c_rank (cache M) of
        Some r \<Rightarrow> (r, M)
      | None \<Rightarrow> (case pivots \<epsilon> M of (ps, M1) \<Rightarrow>
                   (length ps, M1\<lparr>cache := (cache M1)\<lparr>c_rank := Some (length ps)\<rparr>\<rparr>)))"

definition rref :: "real \<Rightarrow> Matrix \<Rightarrow> matrix \<times> Matrix" where
  "rref \<epsilon> M =
     (case c_rref (cache M) of
        Some R \<Rightarrow> (R, M)
      | None \<Rightarrow> (case PLU \<epsilon> M of (d, M1) \<Rightarrow>
                   (case rref_pair d of (R, Ops) \<Rightarrow>
                      (R, M1\<lparr>cache := (cache M1)\<lparr>c_rref := Some R, c_rowOps := Some Ops\<rparr>\<rparr>))))"

text \<open>
  \<^verbatim>\<open>if(this._cache.rowOps) return this._cache.rowOps; this.rref(\<epsilon>); return this._cache.rowOps;\<close>
  The result is \<open>None\<close> where the field is still undefined after \<open>rref\<close>.
\<close>

definition rowOps :: "real \<Rightarrow> Matrix \<Rightarrow> matrix option \<times> Matrix" where
  "rowOps \<epsilon> M =
     (case c_rowOps (cache M) of
        Some Ops \<Rightarrow> (Some Ops, M)
      | None \<Rightarrow> (case rref \<epsilon> M of (R, M1) \<Rightarrow> (c_rowOps (cache M1), M1)))"

text \<open>\<open>QR\<close> stores the factorization and overwrites the cached rank with \<open>n - LD.length\<close>.\<close>

definition QR :: "real \<Rightarrow> Matrix \<Rightarrow> QRData \<times> Matrix" where
  "QR \<epsilon> M =
     (case c_QR (cache M) of
        Some q \<Rightarrow> (q, M)
      | None \<Rightarrow> (let q = QR_compute \<epsilon> (entries M)
                 in (q, M\<lparr>cache := (cache M)\<lparr>c_QR := Some q,
                                 c_rank := Some (n (entries M) - length (qr_LD q))\<rparr>\<rparr>)))"

subsection \<open>In-place mutation\<close>

text \<open>
  The row operations as methods: they change the rows and nothing else. A row index out of
  range makes \<open>this[i]\<close> undefined; the call then throws (for \<open>rowSwap\<close>, it would leave a
  hole in the array of rows), which is the error value here.
\<close>

definition rowScale_m :: "Matrix \<Rightarrow> nat \<Rightarrow> real \<Rightarrow> nat \<Rightarrow> error + Matrix" where
  "rowScale_m M i c start =
     (if i < m (entries M) then Inr (M\<lparr>entries := rowScale (entries M) i c start\<rparr>)
      else Inl RowOutOfRange)"

definition rowReplace_m :: "Matrix \<Rightarrow> nat \<Rightarrow> nat \<Rightarrow> real \<Rightarrow> nat \<Rightarrow> error + Matrix" where
  "rowReplace_m M i1 i2 c start =
     (if i1 < m (entries M) \<and> i2 < m (entries M)
      then Inr (M\<lparr>entries := rowReplace (entries M) i1 i2 c start\<rparr>)
      else Inl RowOutOfRange)"

definition rowSwap_m :: "Matrix \<Rightarrow> nat \<Rightarrow> nat \<Rightarrow> error + Matrix" where
  "rowSwap_m M i1 i2 =
     (if i1 < m (entries M) \<and> i2 < m (entries M)
      then Inr (M\<lparr>entries := rowSwap (entries M) i1 i2\<rparr>)
      else Inl RowOutOfRange)"

text \<open>
  \<^verbatim>\<open>for(let ii = 0; ii < M.m; ++ii) this[ii+i].splice(j, M.n, ...M[ii]); return this;\<close>
  \<open>splice\<close> removes \<open>M.n\<close> entries at \<open>j\<close> and puts the row of \<open>M\<close> there.
\<close>

definition splice_rows :: "nat \<Rightarrow> nat \<Rightarrow> matrix \<Rightarrow> matrix \<Rightarrow> matrix" where
  "splice_rows i j S A =
     fold (\<lambda>ii B. B[ii + i := take j (B ! (ii + i)) @ S ! ii @ drop (j + n S) (B ! (ii + i))])
       [0..<m S] A"

definition insertSubmatrix :: "Matrix \<Rightarrow> nat \<Rightarrow> nat \<Rightarrow> matrix \<Rightarrow> error + Matrix" where
  "insertSubmatrix M i j S =
     (if m S = 0 \<or> i + m S \<le> m (entries M)
      then Inr (M\<lparr>entries := splice_rows i j S (entries M)\<rparr>)
      else Inl RowOutOfRange)"

section \<open>Characteristic polynomial\<close>

text \<open>
  Modelled from the spec: a Polynomial is its coefficient list, highest degree first
  (\<open>lib/polynomial.js\<close> is not among the sources); \<open>Polynomial.create(coeffs...)\<close> with a
  leading coefficient 1 is that list, and \<open>scale(c)\<close> multiplies every coefficient by \<open>c\<close>.
\<close>

type_synonym polynomial = "real list"

definition poly_create :: "real list \<Rightarrow> polynomial" where
  "poly_create cs = cs"

definition poly_scale :: "polynomial \<Rightarrow> real \<Rightarrow> polynomial" where
  "poly_scale p c = map (\<lambda>a. a * c) p"

text \<open>\<open>diag()\<close> yields \<open>self[j][j]\<close> for \<open>j < min(m, n)\<close>; \<open>trace\<close> adds them up.\<close>

definition trace :: "matrix \<Rightarrow> real" where
  "trace A = (\<Sum>j<min (m A) (n A). A ! j ! j)"

text \<open>
  The loop of \<open>charpoly\<close> over \<open>i\<close>, on the triple \<open>(ret, traces, power)\<close> (\<open>pw\<close> here):
  \<^verbatim>\<open>traces[i] = power.trace; power = power.mult(this); ret[i] = traces[i];
  for(let j = 0; j < i; ++j) ret[i] += ret[j] * traces[i-j-1];
  ret[i] = -ret[i]/(i+1);\<close>
\<close>

fun charpoly_loop ::
  "matrix \<Rightarrow> nat list \<Rightarrow> real list \<times> real list \<times> matrix \<Rightarrow> error + real list \<times> real list \<times> matrix" where
  "charpoly_loop A [] st = Inr st"
| "charpoly_loop A (i # is) (ret, traces, pw) =
     (let traces1 = traces @ [trace pw] in
      case mult pw A of
        Inl e \<Rightarrow> Inl e
      | Inr pw1 \<Rightarrow>
          let r = fold (\<lambda>j r. r + ret ! j * traces1 ! (i - j - 1)) [0..<i] (traces1 ! i)
          in charpoly_loop A is (ret @ [- r / (real i + 1)], traces1, pw1))"

definition charpoly :: "matrix \<Rightarrow> error + polynomial" where
  "charpoly A =
     (if \<not> isSquare A then Inl NonSquare
      else case charpoly_loop A [0..<n A] ([], [], A) of
        Inl e \<Rightarrow> Inl e
      | Inr (ret, traces, pw) \<Rightarrow>
          let p = poly_create (1 # ret)
          in Inr (if n A mod 2 = 1 then poly_scale p (- 1) else p))"

text \<open>\<^verbatim>\<open>get det() { return this.charpoly[this.n]; }\<close>\<close>

definition det :: "matrix \<Rightarrow> error + real" where
  "det A = (case charpoly A of Inl e \<Rightarrow> Inl e | Inr p \<Rightarrow> Inr (p ! n A))"

subsection \<open>The recursion in the words of the description\<close>






declare PLU_loop.simps [simp del]

section \<open>Invariants of the elimination\<close>

text \<open>A \<open>k \<times> l\<close> array of rows.\<close>

definition mat :: "nat \<Rightarrow> nat \<Rightarrow> matrix \<Rightarrow> bool" where
  "mat k l A \<longleftrightarrow> length A = k \<and> (\<forall>i<k. length (A ! i) = l)"

definition plu_shape :: "nat \<Rightarrow> nat \<Rightarrow> PLUData \<Rightarrow> bool" where
  "plu_shape mm nn d \<longleftrightarrow>
     mat mm nn (plu_U d) \<and> mat mm mm (plu_L d) \<and> mat mm mm (plu_E d) \<and> length (plu_P d) = mm"

text \<open>The entries of a row below the pivot after its elimination round.\<close>

definition elim_entry :: "matrix \<Rightarrow> nat \<Rightarrow> nat \<Rightarrow> real \<Rightarrow> nat \<Rightarrow> nat \<Rightarrow> real" where
  "elim_entry Um r c p i j =
     (if j = c then 0
      else if c < j then Um ! i ! j - Um ! i ! c / p * Um ! r ! j
      else Um ! i ! j)"


text \<open>The transposition of the rows \<open>r\<close> and \<open>row\<close>.\<close>

definition sw :: "nat \<Rightarrow> nat \<Rightarrow> nat \<Rightarrow> nat" where
  "sw r row i = (if i = r then row else if i = row then r else i)"

text \<open>The two branches of the body of the loop of \<open>PLU\<close>.\<close>

definition pivot_step :: "nat \<Rightarrow> nat \<Rightarrow> nat \<Rightarrow> real \<Rightarrow> nat \<Rightarrow> PLUData \<Rightarrow> PLUData" where
  "pivot_step mm r c p row d =
     (let d1 = (if row \<noteq> r then swap_rows row r d else d);
          d2 = fold (eliminate_row r c p) [r + 1..<mm] d1
      in d2\<lparr>plu_pivots := plu_pivots d2 @ [(r, c)]\<rparr>)"

definition clear_step :: "nat \<Rightarrow> nat \<Rightarrow> PLUData \<Rightarrow> PLUData" where
  "clear_step r c d = d\<lparr>plu_U := clear_column r c (plu_U d)\<rparr>"












section \<open>Solving \<open>Ax = b\<close>\<close>

text \<open>
  Forward substitution of \<open>solve\<close>:
  \<^verbatim>\<open>for(let i = 1; i < this.m; ++i) for(let ii = 0; ii < i; ++ii) y[i] -= L[i][ii] * y[ii];\<close>
\<close>

definition forward_row :: "matrix \<Rightarrow> nat \<Rightarrow> vec \<Rightarrow> vec" where
  "forward_row Lm i y = fold (\<lambda>ii y. y[i := y ! i - Lm ! i ! ii * y ! ii]) [0..<i] y"

definition forward_sub :: "matrix \<Rightarrow> nat \<Rightarrow> vec \<Rightarrow> vec" where
  "forward_sub Lm mm y = fold (forward_row Lm) [1..<mm] y"

text \<open>
  Reverse substitution of \<open>solve\<close>, the round for the pivot number \<open>p\<close>:
  \<^verbatim>\<open>let [row, col] = pivots[p]; x[col] = y[row];
  for(let pp = p+1; pp < r; ++pp) { let [, col1] = pivots[pp]; x[col] -= U[row][col1] * x[col1]; }
  x[col] /= U[row][col];\<close>
\<close>

definition back_step :: "matrix \<Rightarrow> (nat \<times> nat) list \<Rightarrow> vec \<Rightarrow> nat \<Rightarrow> nat \<Rightarrow> vec \<Rightarrow> vec" where
  "back_step Um ps y r p x =
     (case ps ! p of (row, cl) \<Rightarrow>
        let x1 = x[cl := y ! row];
            x2 = fold (\<lambda>pp x. x[cl := x ! cl - Um ! row ! snd (ps ! pp) * x ! snd (ps ! pp)])
                   [p + 1..<r] x1
        in x2[cl := x2 ! cl / Um ! row ! cl])"

definition back_sub :: "matrix \<Rightarrow> (nat \<times> nat) list \<Rightarrow> vec \<Rightarrow> nat \<Rightarrow> nat \<Rightarrow> vec" where
  "back_sub Um ps y r nn = fold (back_step Um ps y r) (rev [0..<r]) (vzero nn)"

text \<open>
  The body of \<open>solve\<close> once the factorization \<open>d\<close> and the rank \<open>r\<close> are at hand; \<open>None\<close> is
  the result \<open>null\<close>.
\<close>

definition solve_with :: "PLUData \<Rightarrow> nat \<Rightarrow> real \<Rightarrow> matrix \<Rightarrow> vec \<Rightarrow> vec option" where
  "solve_with d r \<epsilon> A b =
     (let Pb = map (\<lambda>i. b ! (plu_P d ! i)) [0..<m A];
          y = forward_sub (plu_L d) (m A) Pb
      in if list_ex (\<lambda>i. \<bar>y ! i\<bar> > \<epsilon>) [r..<m A] then None
         else Some (back_sub (plu_U d) (plu_pivots d) y r (n A)))"

text \<open>
  \<open>solve(b, \<epsilon>)\<close> on the matrix object: an error when \<open>b.length != this.m\<close>, then \<open>PLU(\<epsilon>)\<close>
  and \<open>rank(\<epsilon>)\<close> through the cache.
\<close>

definition solve :: "vec \<Rightarrow> real \<Rightarrow> Matrix \<Rightarrow> (error + vec option) \<times> Matrix" where
  "solve b \<epsilon> M =
     (if length b \<noteq> m (entries M) then (Inl Incompatible, M)
      else case PLU \<epsilon> M of (d, M1) \<Rightarrow>
           case rank \<epsilon> M1 of (r, M2) \<Rightarrow> (Inr (solve_with d r \<epsilon> (entries M) b), M2))"

section \<open>The invariant of the Gram--Schmidt loop\<close>


section \<open>Properties of the echelon test\<close>

lemma echelon_loop_char:
  "- 1 \<le> i0 \<Longrightarrow>
   echelon_loop i0 j0 es \<longleftrightarrow>
     map fst es = [nat (i0 + 1)..<nat (i0 + 1) + length es] \<and>
     sorted_wrt (<) (map snd es) \<and> (\<forall>e \<in> set es. j0 < int (snd e))"
proof (induction es arbitrary: i0 j0)
  case Nil
  then show ?case by simp
next
  case (Cons e es)
  obtain i j where e: "e = (i, j)" by (cases e)
  have step: "echelon_loop (int i) (int j) es \<longleftrightarrow>
     map fst es = [Suc i..<Suc i + length es] \<and>
     sorted_wrt (<) (map snd es) \<and> (\<forall>e \<in> set es. int j < int (snd e))"
    using Cons.IH [of "int i" "int j"] by (simp add: nat_add_distrib)
  show ?case
  proof (cases "int i = i0 + 1")
    case True
    then have i: "nat (i0 + 1) = i" by simp
    show ?thesis
      unfolding e using True step i
      by (auto simp: upt_rec [of i] )
  next
    case False
    then have "nat (i0 + 1) \<noteq> i" using Cons.prems by auto
    then show ?thesis
      unfolding e using False by (auto simp: upt_rec [of "nat (i0 + 1)"])
  qed
qed

text \<open>
  C7 (as stated): \<open>isEchelon(\<epsilon>)\<close> is true exactly when the leading entries have strictly
  increasing row indices and strictly increasing column indices. This fails: a zero row
  above a nonzero row keeps the row indices increasing, and the code answers false.
\<close>

theorem C7_isEchelon_counterexample:
  "\<not> (isEchelon 0 [[0, 0], [1, 0]] \<longleftrightarrow>
        sorted_wrt (<) (map fst (leadingEntries 0 [[0, 0], [1, 0]])) \<and>
        sorted_wrt (<) (map snd (leadingEntries 0 [[0, 0], [1, 0]])))"
  by (simp add: isEchelon_def leadingEntries_def leadCol_def n_def List.map_filter_def upt_rec)

text \<open>
  C7 (amended): for every matrix and every tolerance, \<open>isEchelon(\<epsilon>)\<close> is true exactly when
  the row indices of the leading entries are \<open>0, 1, 2, ...\<close> without a gap (no zero row
  comes before a nonzero row) and their column indices are strictly increasing.
\<close>

theorem C7_isEchelon_iff:
  "isEchelon \<epsilon> A \<longleftrightarrow>
     map fst (leadingEntries \<epsilon> A) = [0..<length (leadingEntries \<epsilon> A)] \<and>
     sorted_wrt (<) (map snd (leadingEntries \<epsilon> A))"
  unfolding isEchelon_def by (subst echelon_loop_char) auto

theorem C7_isEchelon_iff_witness:
  "isEchelon 0 [[2, 1, 3], [0, 0, 5], [0, 0, 0]] \<and>
   leadingEntries 0 [[2, 1, 3], [0, 0, 5], [0, 0, 0]] = [(0, 0), (1, 2)]"
  using C7_isEchelon_iff [of 0 "[[2, 1, 3], [0, 0, 5], [0, 0, 0]]"]
  by (simp add: leadingEntries_def leadCol_def n_def List.map_filter_def upt_rec)

section \<open>The cache under mutation and under a second call\<close>

text \<open>
  C9 (as stated): after \<open>insertSubmatrix\<close> (or a row operation) a cached quantity is
  recomputed from the new entries. This fails: the matrix \<open>[[1]]\<close> has rank 1; after
  \<open>insertSubmatrix(0, 0, [[0]])\<close> its only entry is 0, and \<open>rank()\<close> still answers 1, where a
  matrix created from the new entries answers 0.
\<close>

theorem C9_insertSubmatrix_stale_counterexample:
  "insertSubmatrix (snd (rank default_eps (new_Matrix [[1]]))) 0 0 [[0]]
     = Inr ((snd (rank default_eps (new_Matrix [[1]])))\<lparr>entries := [[0]]\<rparr>) \<and>
   fst (rank default_eps ((snd (rank default_eps (new_Matrix [[1]])))\<lparr>entries := [[0]]\<rparr>)) = 1 \<and>
   fst (rank default_eps (new_Matrix [[0]])) = 0"
  by code_simp

text \<open>
  C9 (amended): the row operations and \<open>insertSubmatrix\<close> change the rows and leave the cache
  as it is, so a cached quantity read afterwards is the one cached before the mutation;
  once \<open>invalidate()\<close> has been called, \<open>transpose\<close>, \<open>PLU\<close>, \<open>rank\<close>, \<open>rref\<close>, \<open>rowOps\<close> and
  \<open>QR\<close> are computed again from the entries the matrix then has.
\<close>

theorem C9_cache_kept_until_invalidate:
  "(rowScale_m M i c start = Inr M1 \<longrightarrow> cache M1 = cache M) \<and>
   (rowReplace_m M i1 i2 c start = Inr M2 \<longrightarrow> cache M2 = cache M) \<and>
   (rowSwap_m M i1 i2 = Inr M3 \<longrightarrow> cache M3 = cache M) \<and>
   (insertSubmatrix M i j S = Inr M4 \<longrightarrow> cache M4 = cache M) \<and>
   fst (transpose_m (invalidate M)) = transpose_of (entries M) \<and>
   fst (PLU \<epsilon> (invalidate M)) = PLU_compute \<epsilon> (entries M) \<and>
   fst (rank \<epsilon> (invalidate M)) = length (plu_pivots (PLU_compute \<epsilon> (entries M))) \<and>
   fst (rref \<epsilon> (invalidate M)) = rref_compute \<epsilon> (entries M) \<and>
   fst (rowOps \<epsilon> (invalidate M)) = Some (rowOps_compute \<epsilon> (entries M)) \<and>
   fst (QR \<epsilon> (invalidate M)) = QR_compute \<epsilon> (entries M)"
  by (auto simp: rowScale_m_def rowReplace_m_def rowSwap_m_def insertSubmatrix_def
      transpose_m_def PLU_def pivots_def rank_def rref_def rowOps_def QR_def invalidate_def
      empty_cache_def rref_compute_def rowOps_compute_def Let_def
      split: if_splits prod.splits)

theorem C9_cache_kept_until_invalidate_witness:
  "rowScale_m (snd (rank default_eps (new_Matrix [[1, 2], [3, 4]]))) 1 0 0
     = Inr \<lparr>entries = [[1, 2], [0, 0]], cache = cache (snd (rank default_eps (new_Matrix [[1, 2], [3, 4]])))\<rparr> \<and>
   rowReplace_m (snd (rank default_eps (new_Matrix [[1, 2], [3, 4]]))) 1 0 (- 3) 0
     = Inr \<lparr>entries = [[1, 2], [0, - 2]], cache = cache (snd (rank default_eps (new_Matrix [[1, 2], [3, 4]])))\<rparr> \<and>
   rowSwap_m (snd (rank default_eps (new_Matrix [[1, 2], [3, 4]]))) 0 1
     = Inr \<lparr>entries = [[3, 4], [1, 2]], cache = cache (snd (rank default_eps (new_Matrix [[1, 2], [3, 4]])))\<rparr> \<and>
   insertSubmatrix (snd (rank default_eps (new_Matrix [[1, 2], [3, 4]]))) 1 0 [[0, 0]]
     = Inr \<lparr>entries = [[1, 2], [0, 0]], cache = cache (snd (rank default_eps (new_Matrix [[1, 2], [3, 4]])))\<rparr> \<and>
   fst (rank default_eps \<lparr>entries = [[1, 2], [0, 0]], cache = cache (snd (rank default_eps (new_Matrix [[1, 2], [3, 4]])))\<rparr>) = 2 \<and>
   fst (rank default_eps (invalidate \<lparr>entries = [[1, 2], [0, 0]], cache = cache (snd (rank default_eps (new_Matrix [[1, 2], [3, 4]])))\<rparr>)) = 1"
proof -
  let ?M = "snd (rank default_eps (new_Matrix [[1, 2], [3, 4]]))"
  let ?M' = "\<lparr>entries = [[1, 2], [0, 0]], cache = cache ?M\<rparr>"
  have a: "rowScale_m ?M 1 0 0 = Inr ?M'"
    by code_simp
  have b: "rowReplace_m ?M 1 0 (- 3) 0 = Inr \<lparr>entries = [[1, 2], [0, - 2]], cache = cache ?M\<rparr>"
    by code_simp
  have c: "rowSwap_m ?M 0 1 = Inr \<lparr>entries = [[3, 4], [1, 2]], cache = cache ?M\<rparr>"
    by code_simp
  have d: "insertSubmatrix ?M 1 0 [[0, 0]] = Inr ?M'"
    by code_simp
  have e: "fst (rank default_eps ?M') = 2"
    by code_simp
  have f: "length (plu_pivots (PLU_compute default_eps [[1, 2], [0, 0]])) = 1"
    by code_simp
  have "fst (rank default_eps (invalidate ?M')) = length (plu_pivots (PLU_compute default_eps (entries ?M')))"
    using C9_cache_kept_until_invalidate [where M = ?M' and \<epsilon> = default_eps] by blast
  then have g: "fst (rank default_eps (invalidate ?M')) = 1"
    using f by simp
  from a b c d e g show ?thesis by blast
qed

text \<open>
  C10: once \<open>PLU\<close>, \<open>rank\<close>, \<open>rref\<close> or \<open>QR\<close> has been called with a tolerance \<open>\<epsilon>1\<close>, a second
  call with any tolerance \<open>\<epsilon>2\<close> returns the same value and leaves the object as it is; on a
  matrix with nothing cached that value is the one computed with \<open>\<epsilon>1\<close>.
\<close>

theorem C10_second_call_ignores_tolerance:
  "PLU \<epsilon>2 (snd (PLU \<epsilon>1 M)) = PLU \<epsilon>1 M \<and>
   rank \<epsilon>2 (snd (rank \<epsilon>1 M)) = rank \<epsilon>1 M \<and>
   rref \<epsilon>2 (snd (rref \<epsilon>1 M)) = rref \<epsilon>1 M \<and>
   QR \<epsilon>2 (snd (QR \<epsilon>1 M)) = QR \<epsilon>1 M \<and>
   fst (PLU \<epsilon>2 (snd (PLU \<epsilon>1 (new_Matrix A)))) = PLU_compute \<epsilon>1 A \<and>
   fst (rank \<epsilon>2 (snd (rank \<epsilon>1 (new_Matrix A)))) = length (plu_pivots (PLU_compute \<epsilon>1 A)) \<and>
   fst (rref \<epsilon>2 (snd (rref \<epsilon>1 (new_Matrix A)))) = rref_compute \<epsilon>1 A \<and>
   fst (QR \<epsilon>2 (snd (QR \<epsilon>1 (new_Matrix A)))) = QR_compute \<epsilon>1 A"
  by (auto simp: PLU_def pivots_def rank_def rref_def QR_def new_Matrix_def
      empty_cache_def rref_compute_def Let_def
      split: option.splits prod.splits)

theorem C10_second_call_ignores_tolerance_witness:
  "fst (rank 1 (snd (rank default_eps (new_Matrix [[1 / 2]])))) = 1 \<and>
   fst (rank 1 (new_Matrix [[1 / 2]])) = 0"
proof -
  have a: "length (plu_pivots (PLU_compute default_eps [[1 / 2]])) = 1" by code_simp
  have b: "fst (rank 1 (new_Matrix [[1 / 2]])) = 0" by code_simp
  have "fst (rank 1 (snd (rank default_eps (new_Matrix [[1 / 2]]))))
          = length (plu_pivots (PLU_compute default_eps [[1 / 2]]))"
    using C10_second_call_ignores_tolerance [of 1 default_eps _ "[[1 / 2]]"] by blast
  with a b show ?thesis by (simp only:) 
qed












section \<open>Shapes and entries\<close>


lemma matD: "mat k l A \<Longrightarrow> length A = k" "mat k l A \<Longrightarrow> i < k \<Longrightarrow> length (A ! i) = l"
  by (simp_all add: mat_def)

lemma matI: "length A = k \<Longrightarrow> (\<And>i. i < k \<Longrightarrow> length (A ! i) = l) \<Longrightarrow> mat k l A"
  by (simp add: mat_def)



lemma nth_upd:
  "xs[i := x] ! j = (if i = j \<and> i < length xs then x else xs ! j)"
  by (cases "i < length xs") (simp_all add: nth_list_update list_update_beyond)

lemma length_vadd [simp]: "length (vadd v w c s) = length v"
  by (simp add: vadd_def)

lemma nth_vadd [simp]:
  "j < length v \<Longrightarrow> vadd v w c s ! j = (if s \<le> j then v ! j + c * w ! j else v ! j)"
  by (simp add: vadd_def)

lemma length_vscale [simp]: "length (vscale v c s) = length v"
  by (simp add: vscale_def)

lemma nth_vscale [simp]:
  "j < length v \<Longrightarrow> vscale v c s ! j = (if s \<le> j then v ! j * c else v ! j)"
  by (simp add: vscale_def)

lemma length_ve [simp]: "length (ve i k c) = k"
  by (simp add: ve_def)

lemma nth_ve [simp]: "j < k \<Longrightarrow> ve i k c ! j = (if j = i then c else 0)"
  by (auto simp: ve_def nth_list_update)

lemma mat_identity [simp]: "mat k k (identity k c)"
  by (simp add: mat_def identity_def)

lemma nth_identity [simp]:
  "i < k \<Longrightarrow> j < k \<Longrightarrow> identity k c ! i ! j = (if j = i then c else 0)"
  by (simp add: identity_def)

lemma mat_rowReplace [simp]: "mat k l A \<Longrightarrow> mat k l (rowReplace A i1 i2 c s)"
  by (auto simp: mat_def rowReplace_def nth_upd)

lemma nth_rowReplace:
  "mat k l A \<Longrightarrow> i < k \<Longrightarrow> j < l \<Longrightarrow>
   rowReplace A i1 i2 c s ! i ! j =
     (if i = i1 \<and> s \<le> j then A ! i ! j + c * A ! i2 ! j else A ! i ! j)"
  by (auto simp: mat_def rowReplace_def nth_upd)

lemma mat_rowScale [simp]: "mat k l A \<Longrightarrow> mat k l (rowScale A i c s)"
  by (auto simp: mat_def rowScale_def nth_upd)


lemma mat_rowSwap [simp]: "mat k l A \<Longrightarrow> a < k \<Longrightarrow> b < k \<Longrightarrow> mat k l (rowSwap A a b)"
  by (auto simp: mat_def rowSwap_def nth_upd)

lemma nth_rowSwap:
  "mat k l A \<Longrightarrow> a < k \<Longrightarrow> b < k \<Longrightarrow> i < k \<Longrightarrow>
   rowSwap A a b ! i = (if i = b then A ! a else if i = a then A ! b else A ! i)"
  by (auto simp: mat_def rowSwap_def nth_upd)

lemma mat_set_entry [simp]: "mat k l A \<Longrightarrow> mat k l (A[i := (A ! i)[j := x]])"
  by (auto simp: mat_def nth_upd)

lemma nth_set_entry:
  "mat k l A \<Longrightarrow> i < k \<Longrightarrow> j < l \<Longrightarrow>
   A[i0 := (A ! i0)[j0 := x]] ! i ! j = (if i = i0 \<and> j = j0 then x else A ! i ! j)"
  by (auto simp: mat_def nth_upd)

section \<open>The search for the pivot\<close>



lemma eliminate_row_simps [simp]:
  "plu_P (eliminate_row r c p x d) = plu_P d"
  "plu_pivots (eliminate_row r c p x d) = plu_pivots d"
  "plu_signP (eliminate_row r c p x d) = plu_signP d"
  by (simp_all add: eliminate_row_def Let_def)

lemma eliminate_row_shape:
  "plu_shape mm nn d \<Longrightarrow> plu_shape mm nn (eliminate_row r c p x d)"
  by (simp add: plu_shape_def eliminate_row_def Let_def)

lemma eliminate_row_U:
  assumes "plu_shape mm nn d" "i < mm" "j < nn" "x \<noteq> r"
  shows "plu_U (eliminate_row r c p x d) ! i ! j =
           (if i = x then elim_entry (plu_U d) r c p i j else plu_U d ! i ! j)"
proof -
  let ?U = "plu_U d"
  let ?V = "?U[x := (?U ! x)[c := 0]]"
  have mU: "mat mm nn ?U" using assms(1) by (simp add: plu_shape_def)
  then have mV: "mat mm nn ?V" by simp
  have "plu_U (eliminate_row r c p x d) = rowReplace ?V x r (- (?U ! x ! c / p)) (c + 1)"
    by (simp add: eliminate_row_def Let_def)
  then show ?thesis
    using assms(2-4)
    by (simp add: nth_rowReplace [OF mV] nth_set_entry [OF mU] elim_entry_def)
qed


lemma eliminate_row_E:
  assumes "plu_shape mm nn d" "i < mm" "k < mm"
  shows "plu_E (eliminate_row r c p x d) ! i ! k =
           (if i = x then plu_E d ! i ! k - plu_U d ! i ! c / p * plu_E d ! r ! k
            else plu_E d ! i ! k)"
proof -
  have mE: "mat mm mm (plu_E d)" using assms(1) by (simp add: plu_shape_def)
  have "plu_E (eliminate_row r c p x d) = rowReplace (plu_E d) x r (- (plu_U d ! x ! c / p)) 0"
    by (simp add: eliminate_row_def Let_def)
  then show ?thesis using assms(2,3) by (simp add: nth_rowReplace [OF mE])
qed

lemma elim_fold_simps [simp]:
  "plu_P (fold (eliminate_row r c p) xs d) = plu_P d"
  "plu_pivots (fold (eliminate_row r c p) xs d) = plu_pivots d"
  "plu_signP (fold (eliminate_row r c p) xs d) = plu_signP d"
  by (induction xs arbitrary: d) simp_all




lemma elim_fold_E:
  assumes "plu_shape mm nn d" "i < mm" "k < mm" "r \<notin> set xs" "distinct xs" "r < mm" "c < nn"
  shows "plu_E (fold (eliminate_row r c p) xs d) ! i ! k =
           (if i \<in> set xs then plu_E d ! i ! k - plu_U d ! i ! c / p * plu_E d ! r ! k
            else plu_E d ! i ! k)"
  using assms
proof (induction xs arbitrary: d)
  case Nil
  then show ?case by simp
next
  case (Cons x xs)
  let ?d1 = "eliminate_row r c p x d"
  have sh1: "plu_shape mm nn ?d1" using Cons.prems(1) by (rule eliminate_row_shape)
  have xr: "x \<noteq> r" using Cons.prems(4) by auto
  have IH: "plu_E (fold (eliminate_row r c p) xs ?d1) ! i ! k =
      (if i \<in> set xs then plu_E ?d1 ! i ! k - plu_U ?d1 ! i ! c / p * plu_E ?d1 ! r ! k
       else plu_E ?d1 ! i ! k)"
    using Cons.IH [OF sh1 Cons.prems(2,3)] Cons.prems(4-7) by simp
  have U1: "plu_U ?d1 ! i ! c =
      (if i = x then elim_entry (plu_U d) r c p i c else plu_U d ! i ! c)"
    using eliminate_row_U [OF Cons.prems(1,2,7) xr] .
  have E1: "plu_E ?d1 ! i' ! k =
      (if i' = x then plu_E d ! i' ! k - plu_U d ! i' ! c / p * plu_E d ! r ! k
       else plu_E d ! i' ! k)" if "i' < mm" for i'
    using eliminate_row_E [OF Cons.prems(1) that Cons.prems(3)] .
  show ?case
  proof (cases "i \<in> set xs")
    case True
    then have ix: "i \<noteq> x" using Cons.prems(5) by auto
    with IH U1 E1 [OF Cons.prems(2)] E1 [OF Cons.prems(6)] xr True show ?thesis by simp
  next
    case False
    with IH E1 [OF Cons.prems(2)] show ?thesis by simp
  qed
qed

section \<open>Clearing a column\<close>




section \<open>The row swap\<close>

lemma sw_simps [simp]: "sw r row r = row" "sw r row row = r" "i \<noteq> r \<Longrightarrow> i \<noteq> row \<Longrightarrow> sw r row i = i"
  by (simp_all add: sw_def)



lemma sw_invol [simp]: "sw r row (sw r row i) = i"
  by (simp add: sw_def)

lemma sw_id [simp]: "sw r r i = i"
  by (simp add: sw_def)

lemma swap_rows_simps [simp]:
  "plu_pivots (swap_rows row r d) = plu_pivots d"
  "plu_signP (swap_rows row r d) = - plu_signP d"
  by (simp_all add: swap_rows_def)

lemma swap_rows_shape:
  assumes "plu_shape mm nn d" "r < mm" "row < mm"
  shows "plu_shape mm nn (swap_rows row r d)"
proof -
  have mL: "mat mm mm (plu_L d)" using assms(1) by (simp add: plu_shape_def)
  have "mat mm mm (((plu_L d)[row := take r (plu_L d ! r) @ drop r (plu_L d ! row)])
                  [r := take r (plu_L d ! row) @ drop r (plu_L d ! r)])"
    using mL assms(2,3) by (auto simp: mat_def nth_upd)
  then show ?thesis
    using assms by (simp add: plu_shape_def swap_rows_def)
qed

lemma swap_rows_U:
  assumes "plu_shape mm nn d" "r < mm" "row < mm" "i < mm"
  shows "plu_U (swap_rows row r d) ! i = plu_U d ! sw r row i"
proof -
  have "mat mm nn (plu_U d)" using assms(1) by (simp add: plu_shape_def)
  from nth_rowSwap [OF this assms(3,2,4)] show ?thesis
    by (simp add: swap_rows_def sw_def)
qed

lemma swap_rows_E:
  assumes "plu_shape mm nn d" "r < mm" "row < mm" "i < mm"
  shows "plu_E (swap_rows row r d) ! i = plu_E d ! sw r row i"
proof -
  have "mat mm mm (plu_E d)" using assms(1) by (simp add: plu_shape_def)
  from nth_rowSwap [OF this assms(3,2,4)] show ?thesis
    by (simp add: swap_rows_def sw_def)
qed



section \<open>The loop and its two branches\<close>



section \<open>Entries after a pivot step\<close>

lemma swapped_shape:
  assumes "plu_shape mm nn d" "r < mm" "row < mm"
  shows "plu_shape mm nn (if row \<noteq> r then swap_rows row r d else d)"
  using assms by (simp add: swap_rows_shape)

lemma swapped_U:
  assumes "plu_shape mm nn d" "r < mm" "row < mm" "i < mm"
  shows "plu_U (if row \<noteq> r then swap_rows row r d else d) ! i = plu_U d ! sw r row i"
  using swap_rows_U [OF assms] by simp

lemma swapped_E:
  assumes "plu_shape mm nn d" "r < mm" "row < mm" "i < mm"
  shows "plu_E (if row \<noteq> r then swap_rows row r d else d) ! i = plu_E d ! sw r row i"
  using swap_rows_E [OF assms] by simp



lemma in_upt_below: "i < mm \<Longrightarrow> i \<in> set [r + 1..<mm] \<longleftrightarrow> r < i"
  by auto

lemma pivot_step_pivots [simp]:
  "plu_pivots (pivot_step mm r c p row d) = plu_pivots d @ [(r, c)]"
  by (simp add: pivot_step_def Let_def)




lemma pivot_step_E:
  assumes "plu_shape mm nn d" "r < mm" "row < mm" "c < nn" "i < mm" "k < mm"
  shows "plu_E (pivot_step mm r c p row d) ! i ! k =
           (if r < i then plu_E d ! sw r row i ! k - plu_U d ! sw r row i ! c / p * plu_E d ! row ! k
            else plu_E d ! sw r row i ! k)"
proof -
  let ?d1 = "if row \<noteq> r then swap_rows row r d else d"
  have sh1: "plu_shape mm nn ?d1" by (rule swapped_shape [OF assms(1-3)])
  have "plu_E (pivot_step mm r c p row d) ! i ! k
          = plu_E (fold (eliminate_row r c p) [r + 1..<mm] ?d1) ! i ! k"
    by (simp add: pivot_step_def Let_def)
  also have "\<dots> = (if i \<in> set [r + 1..<mm]
        then plu_E ?d1 ! i ! k - plu_U ?d1 ! i ! c / p * plu_E ?d1 ! r ! k else plu_E ?d1 ! i ! k)"
    by (rule elim_fold_E [OF sh1 assms(5,6) _ _ assms(2,4)]) simp_all
  also have "\<dots> = (if r < i
        then plu_E ?d1 ! i ! k - plu_U ?d1 ! i ! c / p * plu_E ?d1 ! r ! k else plu_E ?d1 ! i ! k)"
    using assms(5) by (simp only: in_upt_below)
  finally show ?thesis
    by (simp only: swapped_U [OF assms(1-3) assms(5)] swapped_E [OF assms(1-3) assms(5)]
        swapped_E [OF assms(1-3) assms(2)] sw_simps)
qed


lemma clear_step_simps [simp]:
  "plu_pivots (clear_step r c d) = plu_pivots d"
  "plu_L (clear_step r c d) = plu_L d"
  "plu_E (clear_step r c d) = plu_E d"
  "plu_P (clear_step r c d) = plu_P d"
  "plu_signP (clear_step r c d) = plu_signP d"
  by (simp_all add: clear_step_def)



section \<open>The echelon invariant is kept\<close>







section \<open>The leading entries of an echelon matrix\<close>











section \<open>The reduced form\<close>
















section \<open>The results of \<open>rref\<close> and \<open>PLU\<close> are in (reduced) echelon form\<close>



section \<open>The factorization \<open>P A = L U\<close>\<close>










section \<open>The products as the code computes them\<close>
















section \<open>Forward and reverse substitution\<close>











section \<open>What \<open>solve\<close> returns\<close>













text \<open>
  The other half fails as well: \<open>b = [0, 1e-11]\<close> is not in the column space of
  \<open>[[1], [0]]\<close>, and \<open>solve\<close> returns the vector \<open>[0]\<close>.
\<close>

lemma solve_accepts_within_tolerance:
  "fst (solve [0, 1 / 10 ^ 11] default_eps (new_Matrix [[1], [0]])) = Inr (Some [0]) \<and>
   (\<forall>x. apply_vec [[1], [0]] x \<noteq> Inr [0, 1 / 10 ^ 11])"
proof
  show "fst (solve [0, 1 / 10 ^ 11] default_eps (new_Matrix [[1], [0]])) = Inr (Some [0])"
    by code_simp
  show "\<forall>x. apply_vec [[1], [0]] x \<noteq> Inr [0, 1 / 10 ^ 11]"
    by (auto simp: apply_vec_def dot_def)
qed



section \<open>The QR factorization\<close>


lemma dot_vzero_left [simp]: "dot (vzero k) w = 0"
  by (simp add: dot_def vzero_def)

lemma dot_vzero_right [simp]: "length v = k \<Longrightarrow> dot v (vzero k) = 0"
  by (simp add: dot_def vzero_def)







lemma length_col [simp]: "length (col A j) = length A"
  by (simp add: col_def)

lemma nth_col [simp]: "i < length A \<Longrightarrow> col A j ! i = A ! i ! j"
  by (simp add: col_def)




lemma mat_zero [simp]: "mat k l (zero k l)"
  by (simp add: mat_def zero_def vzero_def)

lemma nth_zero [simp]: "i < k \<Longrightarrow> j < l \<Longrightarrow> zero k l ! i ! j = 0"
  by (simp add: zero_def vzero_def)









end
